theory Spec2Isabelle
  imports Complex_Main
begin

section \<open>Python values, conversions and rounding\<close>

text \<open>
  The engines receive their numbers from decoded JSON, so a parameter or a dictionary
  entry may hold something that Python's \<^verbatim>\<open>float()\<close> rejects. A value is
  either something \<^verbatim>\<open>float()\<close> accepts, identified with the number it converts to,
  or anything else (None, a non-numeric string, a list), kept with its printed form.
  Floating-point numbers are idealised as reals: every comparison and every formula
  below is the one of the source, evaluated without rounding error.
\<close>

datatype pyval = PyNum real | PyOther string

datatype py_error = FloatError string | KeyError string | CompareError

fun to_float :: "pyval \<Rightarrow> py_error + real" where
  "to_float (PyNum r) = Inr r"
| "to_float (PyOther s) = Inl (FloatError s)"

text \<open>
  \<^verbatim>\<open>round(x, n)\<close>: the nearest multiple of \<open>10^-n\<close>, a tie going to the even
  neighbour.
\<close>

definition py_round :: "real \<Rightarrow> nat \<Rightarrow> real" where
  "py_round x n =
     (let y = x * 10 ^ n;
          f = \<lfloor>y\<rfloor>;
          d = y - of_int f;
          r = (if d < 1 / 2 then f else if d > 1 / 2 then f + 1
               else if even f then f else f + 1)
      in of_int r / 10 ^ n)"

section \<open>The prediction engine (prediction\_engine.py)\<close>

record candle =
  abertura :: "pyval option"
  maxima :: "pyval option"
  minima :: "pyval option"
  fechamento :: "pyval option"

text \<open>\<^verbatim>\<open>candle[key]\<close> raises KeyError on a missing key; \<^verbatim>\<open>candle.get(key, 0)\<close> gives 0.\<close>

definition subscript :: "string \<Rightarrow> pyval option \<Rightarrow> py_error + pyval" where
  "subscript k v = (case v of None \<Rightarrow> Inl (KeyError k) | Some x \<Rightarrow> Inr x)"

definition get_default :: "pyval option \<Rightarrow> pyval \<Rightarrow> pyval" where
  "get_default v d = (case v of None \<Rightarrow> d | Some x \<Rightarrow> x)"

record predicao =
  fechamento_predito :: real
  cor_predita :: string
  posicao :: string
  fase_usada :: nat
  algoritmo :: string
  timestamp :: string
  abertura_usada :: real
  maxima_usada :: real
  minima_usada :: real

record estatisticas_t =
  total_predicoes :: nat
  acertos :: nat
  assertividade :: real

record engine =
  fase_detectada :: "nat option"
  chave_ativa_fase1 :: "string option"
  historico_predicoes :: "predicao list"
  estatisticas :: estatisticas_t

definition init_engine :: engine where
  "init_engine =
     \<lparr>fase_detectada = None, chave_ativa_fase1 = None, historico_predicoes = [],
      estatisticas = \<lparr>total_predicoes = 0, acertos = 0, assertividade = 0\<rparr>\<rparr>"

subsection \<open>detectar\_fase\<close>

text \<open>
  The list comprehension converts the opening value of every candle in order; the first
  one that \<^verbatim>\<open>float()\<close> rejects raises out of the method, which has no handler.
\<close>

fun aberturas_of :: "candle list \<Rightarrow> py_error + real list" where
  "aberturas_of [] = Inr []"
| "aberturas_of (c # cs) =
     (case to_float (get_default (abertura c) (PyNum 0)) of
        Inl e \<Rightarrow> Inl e
      | Inr x \<Rightarrow> (case aberturas_of cs of Inl e \<Rightarrow> Inl e | Inr xs \<Rightarrow> Inr (x # xs)))"

definition mean :: "real list \<Rightarrow> real" where
  "mean xs = sum_list xs / real (length xs)"

definition detectar_fase :: "engine \<Rightarrow> candle list \<Rightarrow> (py_error + nat) \<times> engine" where
  "detectar_fase e dados =
     (if dados = [] then (Inr 1, e)
      else case aberturas_of dados of
          Inl err \<Rightarrow> (Inl err, e)
        | Inr aberturas \<Rightarrow>
            (let media_abertura = mean aberturas;
                 fase = (if media_abertura > 1000 then 2 else 1)
             in (Inr fase, e\<lparr>fase_detectada := Some fase\<rparr>)))"

subsection \<open>The key backtest of phase 1\<close>

text \<open>
  One iteration of the loop body of \<^verbatim>\<open>_testar_chave_fase1\<close>: the result is the
  exception that makes the loop skip the pair, or whether the pair is a hit. The key
  function is a parameter of the method; it may raise as well.
\<close>

definition testar_par :: "(real \<Rightarrow> py_error + real) \<Rightarrow> candle \<Rightarrow> candle \<Rightarrow> py_error + bool" where
  "testar_par funcao_chave candle_anterior candle_atual =
     (case subscript ''abertura'' (abertura candle_anterior) of Inl e \<Rightarrow> Inl e | Inr av \<Rightarrow>
      case to_float av of Inl e \<Rightarrow> Inl e | Inr abertura_f \<Rightarrow>
      case subscript ''fechamento'' (fechamento candle_atual) of Inl e \<Rightarrow> Inl e | Inr fv \<Rightarrow>
      case to_float fv of Inl e \<Rightarrow> Inl e | Inr fechamento_real \<Rightarrow>
      case funcao_chave abertura_f of Inl e \<Rightarrow> Inl e | Inr chave_valor \<Rightarrow>
      (let predicao_cor = (if chave_valor > 0.5 then (1::nat) else 0) in
       case subscript ''abertura'' (abertura candle_atual) of Inl e \<Rightarrow> Inl e | Inr av2 \<Rightarrow>
       case to_float av2 of Inl e \<Rightarrow> Inl e | Inr abertura_atual \<Rightarrow>
       (let cor_real = (if fechamento_real > abertura_atual then (1::nat) else 0)
        in Inr (predicao_cor = cor_real))))"

fun testar_loop :: "(real \<Rightarrow> py_error + real) \<Rightarrow> candle list \<Rightarrow> nat \<times> nat \<Rightarrow> nat \<times> nat" where
  "testar_loop f (a # b # rest) (acertos_n, total_n) =
     testar_loop f (b # rest)
       (case testar_par f a b of
          Inl e \<Rightarrow> (acertos_n, total_n)
        | Inr hit \<Rightarrow> ((if hit then acertos_n + 1 else acertos_n), total_n + 1))"
| "testar_loop f [a] acc = acc"
| "testar_loop f [] acc = acc"

definition testar_chave_fase1 :: "candle list \<Rightarrow> (real \<Rightarrow> py_error + real) \<Rightarrow> real" where
  "testar_chave_fase1 dados funcao_chave =
     (if length dados < 5 then 0
      else (let (acertos_n, total_n) = testar_loop funcao_chave dados (0, 0)
            in if total_n > 0 then real acertos_n / real total_n else 0))"

subsection \<open>The two closing-price algorithms\<close>

text \<open>
  \<^verbatim>\<open>algoritmo_fibonacci_amplitude\<close> rebinds its parameters to their conversions
  inside the \<^verbatim>\<open>try\<close>; the handler returns whatever \<^verbatim>\<open>abertura\<close> is bound
  to when the exception arrives.
\<close>

definition algoritmo_fibonacci_amplitude :: "pyval \<Rightarrow> pyval \<Rightarrow> pyval \<Rightarrow> pyval" where
  "algoritmo_fibonacci_amplitude abertura_v maxima_v minima_v =
     (case to_float abertura_v of Inl e \<Rightarrow> abertura_v | Inr a \<Rightarrow>
      case to_float maxima_v of Inl e \<Rightarrow> PyNum a | Inr mx \<Rightarrow>
      case to_float minima_v of Inl e \<Rightarrow> PyNum a | Inr mn \<Rightarrow>
      (let meio = (mx + mn) / 2 in
       if a < meio then PyNum (a + 0.618 * (mx - a))
       else PyNum (a - 0.618 * (a - mn))))"

text \<open>
  \<^verbatim>\<open>predizer_fase1\<close>: the handler returns \<^verbatim>\<open>float(abertura)\<close>, which raises
  again when it was the opening value that could not be converted.
\<close>

definition funcoes_predicao :: "string \<Rightarrow> (real \<Rightarrow> real \<Rightarrow> real \<Rightarrow> real) option" where
  "funcoes_predicao k =
     (if k = ''sum_last_3'' then Some (\<lambda>a mx mn. mn + (mx - mn) * 0.6)
      else if k = ''1st_digit_parity'' then Some (\<lambda>a mx mn. (a + mx + mn) / 3)
      else if k = ''decimal_pattern'' then Some (\<lambda>a mx mn. mn + (mx - mn) * 0.382)
      else if k = ''last_integer_digit'' then Some (\<lambda>a mx mn. a + (mx - a) * 0.5)
      else None)"

definition predizer_fase1 ::
  "pyval \<Rightarrow> pyval \<Rightarrow> pyval \<Rightarrow> string option \<Rightarrow> py_error + real" where
  "predizer_fase1 abertura_v maxima_v minima_v chave_ativa =
     (case to_float abertura_v of Inl e \<Rightarrow> Inl e | Inr a \<Rightarrow>
      case to_float maxima_v of Inl e \<Rightarrow> Inr a | Inr mx \<Rightarrow>
      case to_float minima_v of Inl e \<Rightarrow> Inr a | Inr mn \<Rightarrow>
      (case (case chave_ativa of None \<Rightarrow> None | Some k \<Rightarrow> funcoes_predicao k) of
         Some f \<Rightarrow> Inr (f a mx mn)
       | None \<Rightarrow> Inr ((a + mx + mn) / 3)))"

subsection \<open>fazer\_predicao\<close>

text \<open>
  The response of \<^verbatim>\<open>fazer_predicao\<close> is the prediction dictionary or, from the
  handler, the error dictionary (colour "Erro", position "NENHUMA") with the converted
  opening value. The reading of the clock, \<^verbatim>\<open>datetime.now().isoformat()\<close>, is a
  parameter. \<^verbatim>\<open>str(None)\<close> is "None".
\<close>

datatype resposta = Predicao predicao | PredicaoErro py_error real

definition str_chave :: "string option \<Rightarrow> string" where
  "str_chave k = (case k of None \<Rightarrow> ''None'' | Some s \<Rightarrow> s)"

definition fase_or_2 :: "nat option \<Rightarrow> nat" where
  "fase_or_2 f = (case f of None \<Rightarrow> 2 | Some n \<Rightarrow> if n = 0 then 2 else n)"

definition handler_predicao :: "py_error \<Rightarrow> pyval \<Rightarrow> engine \<Rightarrow> (py_error + resposta) \<times> engine" where
  "handler_predicao err abertura_v e =
     (case to_float abertura_v of
        Inl e2 \<Rightarrow> (Inl e2, e)
      | Inr a \<Rightarrow> (Inr (PredicaoErro err a), e))"

definition fazer_predicao ::
  "engine \<Rightarrow> string \<Rightarrow> pyval \<Rightarrow> pyval \<Rightarrow> pyval \<Rightarrow> (py_error + resposta) \<times> engine" where
  "fazer_predicao e now abertura_v maxima_v minima_v =
     (let fase = fase_or_2 (fase_detectada e) in
      case to_float abertura_v of Inl err \<Rightarrow> handler_predicao err abertura_v e
      | Inr abertura_float \<Rightarrow>
      case to_float maxima_v of Inl err \<Rightarrow> handler_predicao err abertura_v e
      | Inr maxima_float \<Rightarrow>
      case to_float minima_v of Inl err \<Rightarrow> handler_predicao err abertura_v e
      | Inr minima_float \<Rightarrow>
      (case (if fase = 1
             then (case predizer_fase1 (PyNum abertura_float) (PyNum maxima_float)
                          (PyNum minima_float) (chave_ativa_fase1 e) of
                     Inl err \<Rightarrow> Inl err
                   | Inr p \<Rightarrow> Inr (p, ''Fase 1 - '' @ str_chave (chave_ativa_fase1 e)))
             else (case algoritmo_fibonacci_amplitude (PyNum abertura_float)
                          (PyNum maxima_float) (PyNum minima_float) of
                     PyNum p \<Rightarrow> Inr (p, ''Fibonacci da Amplitude'')
                   | PyOther s \<Rightarrow> Inl CompareError)) of
         Inl err \<Rightarrow> handler_predicao err abertura_v e
       | Inr (fechamento_pred, algoritmo_usado) \<Rightarrow>
           (let cor_pred = (if fechamento_pred > abertura_float then ''Verde'' else ''Vermelho'');
                posicao_v = (if cor_pred = ''Verde'' then ''CALL'' else ''PUT'');
                predicao_v = \<lparr>fechamento_predito = py_round fechamento_pred 4,
                              cor_predita = cor_pred,
                              posicao = posicao_v,
                              fase_usada = fase,
                              algoritmo = algoritmo_usado,
                              timestamp = now,
                              abertura_usada = abertura_float,
                              maxima_usada = maxima_float,
                              minima_usada = minima_float\<rparr>
            in (Inr (Predicao predicao_v),
                e\<lparr>historico_predicoes := historico_predicoes e @ [predicao_v]\<rparr>))))"

subsection \<open>confirmar\_resultado\<close>

record resultado =
  r_fechamento_real :: real
  r_fechamento_predito :: real
  r_erro_absoluto :: real
  r_erro_percentual :: real
  r_cor_real :: string
  r_cor_predita :: string
  r_acerto_cor :: bool
  r_assertividade_atual :: real

text \<open>
  The result is the dictionary of the confirmation or a dictionary with the single key
  \<^verbatim>\<open>erro\<close>: the fixed message when there is nothing to confirm, or the text of the
  exception caught by the handler.
\<close>

datatype confirmacao = NenhumaPredicao | ErroConfirmacao py_error | Confirmado resultado

definition confirmar_resultado :: "engine \<Rightarrow> pyval \<Rightarrow> confirmacao \<times> engine" where
  "confirmar_resultado e fechamento_real =
     (if historico_predicoes e = [] then (NenhumaPredicao, e)
      else
        (let ultima_predicao = last (historico_predicoes e);
             fechamento_pred = fechamento_predito ultima_predicao;
             abertura_u = abertura_usada ultima_predicao
         in case to_float fechamento_real of
              Inl err \<Rightarrow> (ErroConfirmacao err, e)
            | Inr fechamento_real_float \<Rightarrow>
                (let erro_absoluto = \<bar>fechamento_real_float - fechamento_pred\<bar>;
                     erro_percentual =
                       (if fechamento_real_float \<noteq> 0
                        then (erro_absoluto / \<bar>fechamento_real_float\<bar>) * 100 else 0);
                     cor_real = (if fechamento_real_float > abertura_u
                                 then ''Verde'' else ''Vermelho'');
                     cor_pred = cor_predita ultima_predicao;
                     acerto_cor = (cor_real = cor_pred);
                     st = estatisticas e;
                     total_n = total_predicoes st + 1;
                     acertos' = (if acerto_cor then acertos st + 1 else acertos st);
                     assertividade' = (real acertos' / real total_n) * 100;
                     st' = \<lparr>total_predicoes = total_n, acertos = acertos',
                            assertividade = assertividade'\<rparr>
                 in (Confirmado
                       \<lparr>r_fechamento_real = fechamento_real_float,
                        r_fechamento_predito = fechamento_pred,
                        r_erro_absoluto = py_round erro_absoluto 4,
                        r_erro_percentual = py_round erro_percentual 6,
                        r_cor_real = cor_real,
                        r_cor_predita = cor_pred,
                        r_acerto_cor = acerto_cor,
                        r_assertividade_atual = py_round assertividade' 2\<rparr>,
                     e\<lparr>estatisticas := st'\<rparr>))))"

section \<open>The amplitude predictor (amplitude\_predictor.py)\<close>

text \<open>
  The predictor object holds the statistics that its constructor derives from the
  history; the percentile table is a dictionary with integer keys, listed here in
  insertion order. The methods below read these fields and never assign to them.
\<close>

record amplitude_predictor =
  mean_amplitude :: real
  std_amplitude :: real
  amplitude_percentiles :: "(int \<times> real) list"

subsection \<open>Expansion probability\<close>

definition calculate_expansion_probability ::
  "real \<Rightarrow> real \<Rightarrow> real \<Rightarrow> real \<Rightarrow> real \<Rightarrow> real \<Rightarrow> real \<Rightarrow> string \<Rightarrow> real" where
  "calculate_expansion_probability current_amplitude_v predicted_amplitude_v elapsed_minutes
       current_price current_high current_low predicted_close predicted_direction =
     (let growth_potential_v =
            (if current_amplitude_v > 0
             then (predicted_amplitude_v - current_amplitude_v) / current_amplitude_v else 0);
          growth_factor = min 1 (max 0 growth_potential_v);
          price_position_v =
            (if current_amplitude_v > 0
             then (current_price - current_low) / current_amplitude_v else 0.5);
          position_factor = 1 - \<bar>price_position_v - 0.5\<bar> * 2;
          time_ratio = elapsed_minutes / 15;
          time_factor = (if time_ratio > 0.83 then 0.85
                         else if time_ratio > 0.67 then 0.65 else 0.45);
          prediction_factor =
            (if predicted_close > current_high \<or> predicted_close < current_low
             then 0.9 else 0.5);
          expansion_prob = growth_factor * 0.25 + position_factor * 0.20
                           + time_factor * 0.30 + prediction_factor * 0.25
      in max 0 (min 1 expansion_prob))"

subsection \<open>Percentile position\<close>

text \<open>
  The loop of \<^verbatim>\<open>_get_percentile_position\<close> over the entries of the table, already
  in the order of the scan.
\<close>

fun scan_percentiles :: "(int \<times> real) list \<Rightarrow> real \<Rightarrow> int" where
  "scan_percentiles [] amplitude = 10"
| "scan_percentiles ((p, v) # rest) amplitude =
     (if amplitude \<ge> v then p else scan_percentiles rest amplitude)"

definition get_percentile_position :: "amplitude_predictor \<Rightarrow> real \<Rightarrow> int" where
  "get_percentile_position self amplitude =
     (if amplitude_percentiles self = [] then 50
      else scan_percentiles (rev (sort_key fst (amplitude_percentiles self))) amplitude)"

subsection \<open>Movement expectation and entry strategy\<close>

record movement_analysis =
  m_expectation :: string
  m_confidence :: real
  m_will_pullback :: bool
  m_will_gain_strength :: bool
  m_will_consolidate :: bool
  m_will_reverse_color :: bool

definition analyze_movement_expectation ::
  "real \<Rightarrow> real \<Rightarrow> real \<Rightarrow> real \<Rightarrow> string \<Rightarrow> real \<Rightarrow> real \<Rightarrow> real \<Rightarrow> movement_analysis" where
  "analyze_movement_expectation current_price current_high current_low predicted_close
       predicted_direction price_position_v predicted_price_position_v expansion_probability_v =
     (let price_to_prediction_distance = \<bar>predicted_close - current_price\<bar>;
          current_amplitude_v = current_high - current_low;
          distance_ratio =
            (if current_amplitude_v > 0
             then price_to_prediction_distance / current_amplitude_v else 0);
          will_pullback_v =
            (if price_position_v > 0.75 \<and> predicted_price_position_v < 0.6 then True
             else if price_position_v < 0.25 \<and> predicted_price_position_v > 0.4 then True
             else False);
          will_gain_strength_v =
            (if expansion_probability_v > 0.7 \<and> distance_ratio > 0.3 then True else False);
          will_consolidate_v =
            (if expansion_probability_v < 0.4 \<and> distance_ratio < 0.2 then True else False);
          current_color =
            (if current_price > (current_high + current_low) / 2 then ''green'' else ''red'');
          predicted_color = (if predicted_direction = ''compra'' then ''green'' else ''red'');
          will_reverse_color_v =
            (if current_color \<noteq> predicted_color \<and> expansion_probability_v > 0.6
             then True else False);
          (expectation_v, confidence_v) =
            (if will_pullback_v then (''PULLBACK'', 0.75)
             else if will_gain_strength_v then (''GAIN_STRENGTH'', 0.80)
             else if will_consolidate_v then (''CONSOLIDATE'', 0.70)
             else if will_reverse_color_v then (''REVERSE_COLOR'', 0.65)
             else (''NEUTRAL'', 0.50))
      in \<lparr>m_expectation = expectation_v, m_confidence = confidence_v,
          m_will_pullback = will_pullback_v, m_will_gain_strength = will_gain_strength_v,
          m_will_consolidate = will_consolidate_v,
          m_will_reverse_color = will_reverse_color_v\<rparr>)"

text \<open>The five fixed texts of the key \<^verbatim>\<open>reason\<close>, one for each strategy.\<close>

datatype reason_text =
  ReasonHighConfidence | ReasonDefense | ReasonWait | ReasonHedge | ReasonNeutral

record entry_strategy_t =
  e_strategy :: string
  e_reason :: reason_text
  e_confidence_modifier :: int
  e_stake_type :: string
  e_risk_level :: string

definition determine_entry_strategy ::
  "string \<Rightarrow> movement_analysis \<Rightarrow> real \<Rightarrow> real \<Rightarrow> real \<Rightarrow> entry_strategy_t" where
  "determine_entry_strategy predicted_direction movement expansion_probability_v
       price_position_v elapsed_minutes =
     (let expectation_v = m_expectation movement;
          movement_confidence_v = m_confidence movement
      in if expectation_v = ''GAIN_STRENGTH'' \<and> expansion_probability_v > 0.75
            \<and> movement_confidence_v > 0.75 \<and> elapsed_minutes > 12.5
         then \<lparr>e_strategy = ''HIGH_CONFIDENCE'', e_reason = ReasonHighConfidence,
               e_confidence_modifier = 25, e_stake_type = ''HIGH'', e_risk_level = ''MEDIUM''\<rparr>
         else if expectation_v = ''PULLBACK'' \<or> expectation_v = ''REVERSE_COLOR''
         then \<lparr>e_strategy = ''DEFENSE'', e_reason = ReasonDefense,
               e_confidence_modifier = - 20, e_stake_type = ''LOW'', e_risk_level = ''HIGH''\<rparr>
         else if expectation_v = ''CONSOLIDATE''
         then \<lparr>e_strategy = ''WAIT'', e_reason = ReasonWait,
               e_confidence_modifier = - 30, e_stake_type = ''NONE'', e_risk_level = ''HIGH''\<rparr>
         else if expansion_probability_v > 0.5 \<and> expansion_probability_v < 0.75
         then \<lparr>e_strategy = ''HEDGE'', e_reason = ReasonHedge,
               e_confidence_modifier = 0, e_stake_type = ''NORMAL'', e_risk_level = ''MEDIUM''\<rparr>
         else \<lparr>e_strategy = ''NEUTRAL'', e_reason = ReasonNeutral,
               e_confidence_modifier = 0, e_stake_type = ''NORMAL'', e_risk_level = ''MEDIUM''\<rparr>)"

record recommendation_t =
  movement_expectation :: string
  movement_confidence :: real
  will_pullback :: bool
  will_gain_strength :: bool
  will_consolidate :: bool
  will_reverse_color :: bool
  entry_strategy :: string
  entry_reason :: reason_text
  confidence_modifier :: int
  suggested_stake_type :: string
  risk_level :: string

definition generate_strategic_recommendation ::
  "real \<Rightarrow> real \<Rightarrow> real \<Rightarrow> real \<Rightarrow> string \<Rightarrow> real \<Rightarrow> real \<Rightarrow> real \<Rightarrow> real \<Rightarrow> real \<Rightarrow> real
     \<Rightarrow> recommendation_t" where
  "generate_strategic_recommendation current_price current_high current_low predicted_close
       predicted_direction predicted_amplitude_v current_amplitude_v expansion_probability_v
       elapsed_minutes price_position_v predicted_price_position_v =
     (let movement = analyze_movement_expectation current_price current_high current_low
                       predicted_close predicted_direction price_position_v
                       predicted_price_position_v expansion_probability_v;
          entry = determine_entry_strategy predicted_direction movement
                    expansion_probability_v price_position_v elapsed_minutes
      in \<lparr>movement_expectation = m_expectation movement,
          movement_confidence = m_confidence movement,
          will_pullback = m_will_pullback movement,
          will_gain_strength = m_will_gain_strength movement,
          will_consolidate = m_will_consolidate movement,
          will_reverse_color = m_will_reverse_color movement,
          entry_strategy = e_strategy entry,
          entry_reason = e_reason entry,
          confidence_modifier = e_confidence_modifier entry,
          suggested_stake_type = e_stake_type entry,
          risk_level = e_risk_level entry\<rparr>)"

subsection \<open>predict\_final\_amplitude\<close>

record amplitude_prediction =
  predicted_amplitude :: real
  current_amplitude :: real
  confidence :: real
  expansion_probability :: real
  will_expand :: bool
  growth_potential :: real
  price_position :: real
  price_position_label :: string
  predicted_price_position :: real
  percentile_position :: int
  recommendation :: recommendation_t

definition predict_final_amplitude ::
  "amplitude_predictor \<Rightarrow> real \<Rightarrow> real \<Rightarrow> real \<Rightarrow> real \<Rightarrow> real \<Rightarrow> string
     \<Rightarrow> amplitude_prediction" where
  "predict_final_amplitude self current_high current_low current_price elapsed_minutes
       predicted_close predicted_direction =
     (let amp0 = current_high - current_low;
          current_amplitude_v = (if amp0 = 0 then 0.01 else amp0);
          time_ratio = elapsed_minutes / 15;
          growth_factor = (if time_ratio < 0.33 then 1.8
                           else if time_ratio < 0.67 then 1.4
                           else if time_ratio < 0.83 then 1.2 else 1.15);
          predicted_amplitude_linear = current_amplitude_v * growth_factor;
          predicted_amplitude_mean =
            (if mean_amplitude self > 0
             then (let amplitude_ratio = current_amplitude_v / mean_amplitude self
                   in if amplitude_ratio > 1.5 then current_amplitude_v * 1.05
                      else if amplitude_ratio < 0.5 then mean_amplitude self * 0.8
                      else mean_amplitude self)
             else predicted_amplitude_linear);
          predicted_amplitude_from_close =
            (if predicted_close > current_high then (predicted_close - current_low) * 1.1
             else if predicted_close < current_low then (current_high - predicted_close) * 1.1
             else current_amplitude_v * 1.05);
          predicted_amplitude_v = 0.3 * predicted_amplitude_linear
                                  + 0.3 * predicted_amplitude_mean
                                  + 0.4 * predicted_amplitude_from_close;
          confidence_v = min 95 (40 + time_ratio * 60);
          expansion_probability_v =
            calculate_expansion_probability current_amplitude_v predicted_amplitude_v
              elapsed_minutes current_price current_high current_low predicted_close
              predicted_direction;
          price_position_v =
            (if current_amplitude_v > 0
             then (current_price - current_low) / current_amplitude_v else 0.5);
          price_position_label_v =
            (if price_position_v > 0.7 then ''TOP''
             else if price_position_v < 0.3 then ''BOTTOM'' else ''MIDDLE'');
          predicted_price_position_v =
            (if current_amplitude_v > 0
             then (predicted_close - current_low) / current_amplitude_v else 0.5);
          recommendation_v =
            generate_strategic_recommendation current_price current_high current_low
              predicted_close predicted_direction predicted_amplitude_v current_amplitude_v
              expansion_probability_v elapsed_minutes price_position_v
              predicted_price_position_v
      in \<lparr>predicted_amplitude = py_round predicted_amplitude_v 4,
          current_amplitude = py_round current_amplitude_v 4,
          confidence = py_round confidence_v 2,
          expansion_probability = py_round expansion_probability_v 4,
          will_expand = (expansion_probability_v > 0.6),
          growth_potential =
            (if current_amplitude_v > 0
             then py_round ((predicted_amplitude_v - current_amplitude_v) / current_amplitude_v) 4
             else 0),
          price_position = py_round price_position_v 4,
          price_position_label = price_position_label_v,
          predicted_price_position = py_round predicted_price_position_v 4,
          percentile_position = get_percentile_position self predicted_amplitude_v,
          recommendation = recommendation_v\<rparr>)"

section \<open>Reference definitions for the stated properties\<close>

text \<open>
  The definitions of this section restate, in the words of the specification, what the
  functions above are compared with, and fix the concrete inputs used as examples.
\<close>

definition fibonacci_close :: "real \<Rightarrow> real \<Rightarrow> real \<Rightarrow> real" where
  "fibonacci_close a h l =
     (if a < (h + l) / 2 then a + 0.618 * (h - a) else a - 0.618 * (a - l))"

fun fazer_predicoes ::
  "engine \<Rightarrow> (string \<times> pyval \<times> pyval \<times> pyval) list \<Rightarrow> (py_error + resposta) list \<times> engine" where
  "fazer_predicoes e [] = ([], e)"
| "fazer_predicoes e ((now, a, h, l) # calls) =
     (let (r, e1) = fazer_predicao e now a h l;
          (rs, e2) = fazer_predicoes e1 calls
      in (r # rs, e2))"

definition predicao_fase2 :: "string \<Rightarrow> real \<Rightarrow> real \<Rightarrow> real \<Rightarrow> predicao" where
  "predicao_fase2 now a h l =
     \<lparr>fechamento_predito = py_round (fibonacci_close a h l) 4,
      cor_predita = (if fibonacci_close a h l > a then ''Verde'' else ''Vermelho''),
      posicao = (if fibonacci_close a h l > a then ''CALL'' else ''PUT''),
      fase_usada = 2,
      algoritmo = ''Fibonacci da Amplitude'',
      timestamp = now,
      abertura_usada = a, maxima_usada = h, minima_usada = l\<rparr>"

definition chamada :: "string \<times> real \<times> real \<times> real \<Rightarrow> string \<times> pyval \<times> pyval \<times> pyval" where
  "chamada c = (case c of (now, a, h, l) \<Rightarrow> (now, PyNum a, PyNum h, PyNum l))"

fun sem_timestamp :: "py_error + resposta \<Rightarrow> py_error + resposta" where
  "sem_timestamp (Inr (Predicao p)) = Inr (Predicao (p\<lparr>timestamp := []\<rparr>))"
| "sem_timestamp r = r"

definition engine_usado :: engine where
  "engine_usado = init_engine\<lparr>estatisticas := \<lparr>total_predicoes = 3, acertos = 2, assertividade = 200 / 3\<rparr>\<rparr>"

definition preditor_a :: amplitude_predictor where
  "preditor_a = \<lparr>mean_amplitude = 1, std_amplitude = 0, amplitude_percentiles = []\<rparr>"

definition preditor_b :: amplitude_predictor where
  "preditor_b = \<lparr>mean_amplitude = 1, std_amplitude = 7, amplitude_percentiles = []\<rparr>"

definition tabela6 :: "real \<Rightarrow> real \<Rightarrow> real \<Rightarrow> real \<Rightarrow> real \<Rightarrow> real \<Rightarrow> (int \<times> real) list" where
  "tabela6 v10 v25 v50 v75 v90 v95 = [(10, v10), (25, v25), (50, v50), (75, v75), (90, v90), (95, v95)]"

definition distance_ratio_of :: "real \<Rightarrow> real \<Rightarrow> real \<Rightarrow> real \<Rightarrow> real" where
  "distance_ratio_of current_price current_high current_low predicted_close =
     (if current_high - current_low > 0
      then \<bar>predicted_close - current_price\<bar> / (current_high - current_low) else 0)"

definition movement_rule ::
  "real \<Rightarrow> real \<Rightarrow> real \<Rightarrow> real \<Rightarrow> string \<Rightarrow> real \<Rightarrow> real \<Rightarrow> real \<Rightarrow> string \<times> real" where
  "movement_rule cp ch cl pc pd pp ppp ep =
     (if (pp > 0.75 \<and> ppp < 0.6) \<or> (pp < 0.25 \<and> ppp > 0.4) then (''PULLBACK'', 0.75)
      else if ep > 0.7 \<and> distance_ratio_of cp ch cl pc > 0.3 then (''GAIN_STRENGTH'', 0.80)
      else if ep < 0.4 \<and> distance_ratio_of cp ch cl pc < 0.2 then (''CONSOLIDATE'', 0.70)
      else if (cp > (ch + cl) / 2) \<noteq> (pd = ''compra'') \<and> ep > 0.6 then (''REVERSE_COLOR'', 0.65)
      else (''NEUTRAL'', 0.50))"

definition entry_rule :: "string \<Rightarrow> real \<Rightarrow> real \<Rightarrow> real \<Rightarrow> string \<times> int \<times> string \<times> string" where
  "entry_rule ex ep mc elapsed_minutes =
     (if ex = ''GAIN_STRENGTH'' \<and> ep > 0.75 \<and> mc > 0.75 \<and> elapsed_minutes > 12.5
      then (''HIGH_CONFIDENCE'', 25, ''HIGH'', ''MEDIUM'')
      else if ex = ''PULLBACK'' \<or> ex = ''REVERSE_COLOR'' then (''DEFENSE'', - 20, ''LOW'', ''HIGH'')
      else if ex = ''CONSOLIDATE'' then (''WAIT'', - 30, ''NONE'', ''HIGH'')
      else if 0.5 < ep \<and> ep < 0.75 then (''HEDGE'', 0, ''NORMAL'', ''MEDIUM'')
      else (''NEUTRAL'', 0, ''NORMAL'', ''MEDIUM''))"

definition entry_tuple :: "entry_strategy_t \<Rightarrow> string \<times> int \<times> string \<times> string" where
  "entry_tuple s = (e_strategy s, e_confidence_modifier s, e_stake_type s, e_risk_level s)"

definition clamp01 :: "real \<Rightarrow> real" where
  "clamp01 x = max 0 (min 1 x)"

definition price_position_of :: "real \<Rightarrow> real \<Rightarrow> real \<Rightarrow> real" where
  "price_position_of ca cp cl = (if ca > 0 then (cp - cl) / ca else 0.5)"

definition growth_component :: "real \<Rightarrow> real \<Rightarrow> real" where
  "growth_component ca pa = min 1 (max 0 (if ca > 0 then (pa - ca) / ca else 0))"

definition time_component :: "real \<Rightarrow> real" where
  "time_component em = (if em / 15 > 0.83 then 0.85 else if em / 15 > 0.67 then 0.65 else 0.45)"

definition breakout_component :: "real \<Rightarrow> real \<Rightarrow> real \<Rightarrow> real" where
  "breakout_component pc ch cl = (if pc > ch \<or> pc < cl then 0.9 else 0.5)"

definition expansion_probability_spec ::
  "real \<Rightarrow> real \<Rightarrow> real \<Rightarrow> real \<Rightarrow> real \<Rightarrow> real \<Rightarrow> real \<Rightarrow> real" where
  "expansion_probability_spec ca pa em cp ch cl pc =
     clamp01 (0.25 * growth_component ca pa
              + 0.20 * clamp01 (1 - 2 * \<bar>price_position_of ca cp cl - 0.5\<bar>)
              + 0.30 * time_component em
              + 0.25 * breakout_component pc ch cl)"

definition valor_abertura :: "candle \<Rightarrow> real" where
  "valor_abertura c = (case abertura c of Some (PyNum x) \<Rightarrow> x | _ \<Rightarrow> 0)"

definition abertura_numerica :: "candle \<Rightarrow> bool" where
  "abertura_numerica c = (case abertura c of Some (PyOther s) \<Rightarrow> False | _ \<Rightarrow> True)"



definition pares :: "candle list \<Rightarrow> (candle \<times> candle) list" where
  "pares dados = zip dados (tl dados)"

definition par_usavel :: "(real \<Rightarrow> py_error + real) \<Rightarrow> candle \<times> candle \<Rightarrow> bool" where
  "par_usavel f p = (\<not> isl (testar_par f (fst p) (snd p)))"

definition par_acerto :: "(real \<Rightarrow> py_error + real) \<Rightarrow> candle \<times> candle \<Rightarrow> bool" where
  "par_acerto f p = (testar_par f (fst p) (snd p) = Inr True)"

definition candle_verde :: candle where
  "candle_verde = \<lparr>abertura = Some (PyNum 1), maxima = Some (PyNum 2),
                    minima = Some (PyNum 1), fechamento = Some (PyNum 2)\<rparr>"

definition chave_um :: "real \<Rightarrow> py_error + real" where
  "chave_um x = Inr 1"

section \<open>Properties\<close>

lemma algoritmo_fibonacci_num:
  "algoritmo_fibonacci_amplitude (PyNum a) (PyNum h) (PyNum l) = PyNum (fibonacci_close a h l)"
  by (simp add: algoritmo_fibonacci_amplitude_def fibonacci_close_def Let_def)

lemma fazer_predicao_fase_chave:
  "fase_detectada (snd (fazer_predicao e now a h l)) = fase_detectada e \<and>
   chave_ativa_fase1 (snd (fazer_predicao e now a h l)) = chave_ativa_fase1 e"
  by (simp add: fazer_predicao_def handler_predicao_def Let_def
           split: sum.splits pyval.splits prod.splits)

lemma fazer_predicoes_fase_chave:
  "fase_detectada (snd (fazer_predicoes e calls)) = fase_detectada e \<and>
   chave_ativa_fase1 (snd (fazer_predicoes e calls)) = chave_ativa_fase1 e"
proof (induction calls arbitrary: e)
  case Nil
  show ?case by simp
next
  case (Cons c calls)
  obtain now a h l where c: "c = (now, a, h, l)" by (cases c) auto
  obtain r e1 where r: "fazer_predicao e now a h l = (r, e1)" by (cases "fazer_predicao e now a h l")
  have e1: "fase_detectada e1 = fase_detectada e \<and> chave_ativa_fase1 e1 = chave_ativa_fase1 e"
    using fazer_predicao_fase_chave [of e now a h l] r by simp
  show ?case using Cons.IH [of e1] e1 c r by (auto simp: Let_def split: prod.splits)
qed

lemma fazer_predicao_fase2:
  "fase_detectada e = None \<Longrightarrow>
   fazer_predicao e now (PyNum a) (PyNum h) (PyNum l) =
     (Inr (Predicao (predicao_fase2 now a h l)),
      e\<lparr>historico_predicoes := historico_predicoes e @ [predicao_fase2 now a h l]\<rparr>)"
  by (simp add: fazer_predicao_def fase_or_2_def algoritmo_fibonacci_num predicao_fase2_def Let_def)

lemma fazer_predicoes_fase2:
  "fase_detectada e = None \<Longrightarrow>
   fst (fazer_predicoes e (map chamada calls)) =
     map (\<lambda>(now, a, h, l). Inr (Predicao (predicao_fase2 now a h l))) calls"
proof (induction calls arbitrary: e)
  case Nil
  show ?case by simp
next
  case (Cons c calls)
  obtain now a h l where c: "c = (now, a, h, l)" by (cases c) auto
  let ?e1 = "e\<lparr>historico_predicoes := historico_predicoes e @ [predicao_fase2 now a h l]\<rparr>"
  have "fase_detectada ?e1 = None" using Cons.prems by simp
  from Cons.IH [OF this] fazer_predicao_fase2 [OF Cons.prems, of now a h l] c
  show ?case by (auto simp: chamada_def Let_def split: prod.splits)
qed

lemma fazer_predicao_depends:
  "fase_detectada e1 = fase_detectada e2 \<Longrightarrow> chave_ativa_fase1 e1 = chave_ativa_fase1 e2 \<Longrightarrow>
   sem_timestamp (fst (fazer_predicao e1 t1 a h l)) = sem_timestamp (fst (fazer_predicao e2 t2 a h l))"
  by (simp add: fazer_predicao_def handler_predicao_def Let_def
           split: sum.splits pyval.splits prod.splits)

lemma predict_final_amplitude_depends:
  "mean_amplitude p1 = mean_amplitude p2 \<Longrightarrow> amplitude_percentiles p1 = amplitude_percentiles p2 \<Longrightarrow>
   predict_final_amplitude p1 ch cl cp em pc pd = predict_final_amplitude p2 ch cl cp em pc pd"
  unfolding predict_final_amplitude_def get_percentile_position_def
  by (erule ssubst, erule ssubst, rule refl)

text \<open>
  Claim C1, amended. Two engines that agree on the detected phase and on the active key
  give, after any number of earlier predictions on either of them, the same response to the
  same partial candle in every field but the timestamp, which is the reading of the clock
  at the call. Two amplitude predictors that agree on the mean amplitude and on the
  percentile table give the same result on the same inputs; the method does not change the
  predictor.
\<close>

theorem predicoes_deterministicas:
  "(fase_detectada e1 = fase_detectada e2 \<and> chave_ativa_fase1 e1 = chave_ativa_fase1 e2 \<longrightarrow>
      sem_timestamp (fst (fazer_predicao (snd (fazer_predicoes e1 calls1)) t1 a h l))
        = sem_timestamp (fst (fazer_predicao (snd (fazer_predicoes e2 calls2)) t2 a h l)))
   \<and> (mean_amplitude p1 = mean_amplitude p2 \<and> amplitude_percentiles p1 = amplitude_percentiles p2 \<longrightarrow>
        predict_final_amplitude p1 ch cl cp em pc pd = predict_final_amplitude p2 ch cl cp em pc pd)"
proof -
  have "fase_detectada e1 = fase_detectada e2 \<and> chave_ativa_fase1 e1 = chave_ativa_fase1 e2 \<longrightarrow>
      sem_timestamp (fst (fazer_predicao (snd (fazer_predicoes e1 calls1)) t1 a h l))
        = sem_timestamp (fst (fazer_predicao (snd (fazer_predicoes e2 calls2)) t2 a h l))"
  proof
    assume eq: "fase_detectada e1 = fase_detectada e2 \<and> chave_ativa_fase1 e1 = chave_ativa_fase1 e2"
    have f: "fase_detectada (snd (fazer_predicoes e1 calls1)) = fase_detectada (snd (fazer_predicoes e2 calls2))"
      using eq fazer_predicoes_fase_chave [of e1 calls1] fazer_predicoes_fase_chave [of e2 calls2]
      by (simp only:)
    have c: "chave_ativa_fase1 (snd (fazer_predicoes e1 calls1)) = chave_ativa_fase1 (snd (fazer_predicoes e2 calls2))"
      using eq fazer_predicoes_fase_chave [of e1 calls1] fazer_predicoes_fase_chave [of e2 calls2]
      by (simp only:)
    show "sem_timestamp (fst (fazer_predicao (snd (fazer_predicoes e1 calls1)) t1 a h l))
        = sem_timestamp (fst (fazer_predicao (snd (fazer_predicoes e2 calls2)) t2 a h l))"
      by (rule fazer_predicao_depends [OF f c])
  qed
  moreover have "mean_amplitude p1 = mean_amplitude p2 \<and> amplitude_percentiles p1 = amplitude_percentiles p2 \<longrightarrow>
        predict_final_amplitude p1 ch cl cp em pc pd = predict_final_amplitude p2 ch cl cp em pc pd"
    using predict_final_amplitude_depends by blast
  ultimately show ?thesis by (rule conjI)
qed

text \<open>
  Claim C1 as stated fails for the close-price predictor: the same engine and the same
  partial candle give two responses that differ when the clock has advanced between the
  two calls.
\<close>

theorem fazer_predicao_timestamp_counterexample:
  "fst (fazer_predicao init_engine ''2025-01-01T00:00:00.000001'' (PyNum 10) (PyNum 20) (PyNum 0))
     \<noteq> fst (fazer_predicao init_engine ''2025-01-01T00:00:00.000002'' (PyNum 10) (PyNum 20) (PyNum 0))"
  by (simp add: fazer_predicao_fase2 init_engine_def predicao_fase2_def)

text \<open>
  Claim C9. On an engine whose phase field is unset, phase detection on an empty dataset
  answers 1 and leaves the engine as it was; every later prediction on numeric inputs is
  the one of the phase-2 Fibonacci algorithm, labelled with phase 2, and the phase field
  is still unset after any sequence of predictions.
\<close>

theorem fase_nao_definida_usa_fibonacci:
  "fase_detectada e = None \<Longrightarrow>
     detectar_fase e [] = (Inr 1, e)
     \<and> fst (fazer_predicoes (snd (detectar_fase e [])) (map chamada calls))
         = map (\<lambda>(now, a, h, l). Inr (Predicao (predicao_fase2 now a h l))) calls
     \<and> fase_detectada (snd (fazer_predicoes (snd (detectar_fase e [])) cs)) = None"
proof -
  assume n: "fase_detectada e = None"
  have d: "detectar_fase e [] = (Inr 1, e)" by (simp add: detectar_fase_def)
  have "fst (fazer_predicoes e (map chamada calls))
         = map (\<lambda>(now, a, h, l). Inr (Predicao (predicao_fase2 now a h l))) calls"
    by (rule fazer_predicoes_fase2 [OF n])
  moreover have "fase_detectada (snd (fazer_predicoes e cs)) = None"
    using fazer_predicoes_fase_chave [of e cs] n by (simp only:)
  ultimately show ?thesis using d by (simp only: snd_conv) 
qed

theorem predicoes_deterministicas_witness:
  "(fase_detectada init_engine = fase_detectada engine_usado
      \<and> chave_ativa_fase1 init_engine = chave_ativa_fase1 engine_usado)
   \<and> sem_timestamp (fst (fazer_predicao (snd (fazer_predicoes init_engine []))
         ''2025-01-01T00:00:00.000001'' (PyNum 10) (PyNum 20) (PyNum 0)))
     = sem_timestamp (fst (fazer_predicao
         (snd (fazer_predicoes engine_usado [(''2025-01-01T00:00:00'', PyNum 7, PyNum 9, PyNum 5)]))
         ''2025-01-01T00:00:00.000002'' (PyNum 10) (PyNum 20) (PyNum 0)))
   \<and> (mean_amplitude preditor_a = mean_amplitude preditor_b
      \<and> amplitude_percentiles preditor_a = amplitude_percentiles preditor_b)
   \<and> predict_final_amplitude preditor_a 1 0 0.5 12.5 2 ''compra''
     = predict_final_amplitude preditor_b 1 0 0.5 12.5 2 ''compra''"
proof -
  have h1: "fase_detectada init_engine = fase_detectada engine_usado
      \<and> chave_ativa_fase1 init_engine = chave_ativa_fase1 engine_usado"
    by (simp add: init_engine_def engine_usado_def)
  have h2: "mean_amplitude preditor_a = mean_amplitude preditor_b
      \<and> amplitude_percentiles preditor_a = amplitude_percentiles preditor_b"
    by (simp add: preditor_a_def preditor_b_def)
  from h1 h2 predicoes_deterministicas [of init_engine engine_usado "[]"
      "''2025-01-01T00:00:00.000001''" "PyNum 10" "PyNum 20" "PyNum 0"
      "[(''2025-01-01T00:00:00'', PyNum 7, PyNum 9, PyNum 5)]" "''2025-01-01T00:00:00.000002''"
      preditor_a preditor_b 1 0 "0.5" "12.5" 2 "''compra''"]
  show ?thesis by blast
qed

theorem fase_nao_definida_usa_fibonacci_witness:
  "fase_detectada init_engine = None
   \<and> fst (fazer_predicoes (snd (detectar_fase init_engine []))
        (map chamada [(''t1'', 10, 20, 0), (''t2'', 5, 20, 0)]))
     = [Inr (Predicao \<lparr>fechamento_predito = 3.82, cor_predita = ''Vermelho'', posicao = ''PUT'',
            fase_usada = 2, algoritmo = ''Fibonacci da Amplitude'', timestamp = ''t1'',
            abertura_usada = 10, maxima_usada = 20, minima_usada = 0\<rparr>),
        Inr (Predicao \<lparr>fechamento_predito = 14.27, cor_predita = ''Verde'', posicao = ''CALL'',
            fase_usada = 2, algoritmo = ''Fibonacci da Amplitude'', timestamp = ''t2'',
            abertura_usada = 5, maxima_usada = 20, minima_usada = 0\<rparr>)]"
proof -
  have n: "fase_detectada init_engine = None" by (simp add: init_engine_def)
  have p1: "predicao_fase2 ''t1'' 10 20 0 =
      \<lparr>fechamento_predito = 3.82, cor_predita = ''Vermelho'', posicao = ''PUT'',
            fase_usada = 2, algoritmo = ''Fibonacci da Amplitude'', timestamp = ''t1'',
            abertura_usada = 10, maxima_usada = 20, minima_usada = 0\<rparr>"
    by (simp add: predicao_fase2_def fibonacci_close_def py_round_def Let_def)
  have p2: "predicao_fase2 ''t2'' 5 20 0 =
      \<lparr>fechamento_predito = 14.27, cor_predita = ''Verde'', posicao = ''CALL'',
            fase_usada = 2, algoritmo = ''Fibonacci da Amplitude'', timestamp = ''t2'',
            abertura_usada = 5, maxima_usada = 20, minima_usada = 0\<rparr>"
    by (simp add: predicao_fase2_def fibonacci_close_def py_round_def Let_def)
  from fase_nao_definida_usa_fibonacci [OF n, of "[(''t1'', 10, 20, 0), (''t2'', 5, 20, 0)]" "[]"]
  have "fst (fazer_predicoes (snd (detectar_fase init_engine []))
        (map chamada [(''t1'', 10, 20, 0), (''t2'', 5, 20, 0)]))
     = map (\<lambda>(now, a, h, l). Inr (Predicao (predicao_fase2 now a h l)))
         [(''t1'', 10, 20, 0), (''t2'', 5, 20, 0)]" by blast
  then show ?thesis using n p1 p2 by simp
qed

text \<open>
  Claim C10. Confirming a result while no prediction has been stored returns the error
  result and leaves the engine as it was: the running statistics (total, hits, accuracy)
  and the prediction history are unchanged.
\<close>

theorem confirmar_resultado_sem_predicao:
  "historico_predicoes e = [] \<Longrightarrow>
     confirmar_resultado e fechamento_real = (NenhumaPredicao, e)"
  by (simp add: confirmar_resultado_def)

theorem confirmar_resultado_sem_predicao_witness:
  "historico_predicoes init_engine = [] \<and>
   confirmar_resultado init_engine (PyNum 5) = (NenhumaPredicao, init_engine)"
  using confirmar_resultado_sem_predicao [of init_engine "PyNum 5"]
  by (simp add: init_engine_def)

text \<open>
  Claim C2, amended. On numbers the phase-2 prediction is open + 0.618 (high - open) when
  the open lies below the midpoint of high and low, and open - 0.618 (open - low) otherwise.
  With open 10, high 20 and low 0 the open equals the midpoint, so the second branch gives
  3.82; with open 5 the first branch gives 14.27. When a conversion fails the result is the
  opening value as it was passed.
\<close>

theorem fibonacci_formula:
  "algoritmo_fibonacci_amplitude (PyNum a) (PyNum h) (PyNum l) =
     PyNum (if a < (h + l) / 2 then a + 0.618 * (h - a) else a - 0.618 * (a - l))
   \<and> algoritmo_fibonacci_amplitude (PyNum 10) (PyNum 20) (PyNum 0) = PyNum 3.82
   \<and> algoritmo_fibonacci_amplitude (PyNum 5) (PyNum 20) (PyNum 0) = PyNum 14.27
   \<and> (isl (to_float abertura_v) \<or> isl (to_float maxima_v) \<or> isl (to_float minima_v) \<longrightarrow>
        algoritmo_fibonacci_amplitude abertura_v maxima_v minima_v = abertura_v)"
proof -
  have f: "algoritmo_fibonacci_amplitude (PyNum a) (PyNum h) (PyNum l) =
     PyNum (if a < (h + l) / 2 then a + 0.618 * (h - a) else a - 0.618 * (a - l))" for a h l
    by (simp add: algoritmo_fibonacci_amplitude_def Let_def)
  have v1: "algoritmo_fibonacci_amplitude (PyNum 10) (PyNum 20) (PyNum 0) = PyNum 3.82"
    by (simp add: f)
  have v2: "algoritmo_fibonacci_amplitude (PyNum 5) (PyNum 20) (PyNum 0) = PyNum 14.27"
    by (simp add: f)
  have fb: "isl (to_float abertura_v) \<or> isl (to_float maxima_v) \<or> isl (to_float minima_v) \<longrightarrow>
        algoritmo_fibonacci_amplitude abertura_v maxima_v minima_v = abertura_v"
    by (cases abertura_v; cases maxima_v; cases minima_v)
       (simp_all add: algoritmo_fibonacci_amplitude_def)
  show ?thesis using f [of a h l] v1 v2 fb by (simp only:) 
qed

theorem fibonacci_formula_witness:
  "isl (to_float (PyOther ''None'')) \<and>
   algoritmo_fibonacci_amplitude (PyNum 10) (PyOther ''None'') (PyNum 0) = PyNum 10"
  using fibonacci_formula [of 1 1 1 "PyNum 10" "PyOther ''None''" "PyNum 0"]
  by simp

text \<open>
  Claim C2 as stated fails at its own example: open 10, high 20, low 0 does not give 16.18.
\<close>

theorem fibonacci_example_counterexample:
  "algoritmo_fibonacci_amplitude (PyNum 10) (PyNum 20) (PyNum 0) \<noteq> PyNum 16.18"
  by (simp add: algoritmo_fibonacci_amplitude_def Let_def)

lemma sort_tabela6:
  "rev (sort_key fst (tabela6 v10 v25 v50 v75 v90 v95)) =
     [(95, v95), (90, v90), (75, v75), (50, v50), (25, v25), (10, v10)]"
  by (simp add: tabela6_def)

text \<open>
  Claim C6, amended. With the table of the six percentiles 10, 25, 50, 75, 90, 95 the
  percentile position is the first key, in descending order, whose stored amplitude is at
  most the predicted amplitude, and 10 when there is none; with an empty table it is 50.
\<close>

theorem percentile_position_scan:
  "get_percentile_position (self\<lparr>amplitude_percentiles := tabela6 v10 v25 v50 v75 v90 v95\<rparr>) a =
     (if v95 \<le> a then 95 else if v90 \<le> a then 90 else if v75 \<le> a then 75
      else if v50 \<le> a then 50 else if v25 \<le> a then 25 else 10)
   \<and> get_percentile_position (self\<lparr>amplitude_percentiles := []\<rparr>) a = 50"
  by (simp add: get_percentile_position_def sort_tabela6) (simp add: tabela6_def)

text \<open>
  Claim C6 as stated fails on the empty table, where the result is 50 and not 10.
\<close>

theorem percentile_position_empty_counterexample:
  "get_percentile_position \<lparr>mean_amplitude = 0, std_amplitude = 0, amplitude_percentiles = []\<rparr> 3 \<noteq> 10"
  by (simp add: get_percentile_position_def)

lemma scan_percentiles_result:
  "scan_percentiles tbl a = (case filter (\<lambda>(p, v). v \<le> a) tbl of [] \<Rightarrow> 10 | (p, v) # _ \<Rightarrow> p)"
  by (induction tbl) auto

text \<open>
  Claim C3. The movement classification is the first matching rule in the order PULLBACK
  (0.75), GAIN\_STRENGTH (0.80), CONSOLIDATE (0.70), REVERSE\_COLOR (0.65), NEUTRAL (0.50);
  with a price position of 0.9 and a predicted price position of 0.5 the expectation is
  PULLBACK whatever the expansion probability and the other inputs are.
\<close>

theorem movement_first_match:
  "(m_expectation (analyze_movement_expectation cp ch cl pc pd pp ppp ep),
    m_confidence (analyze_movement_expectation cp ch cl pc pd pp ppp ep))
     = movement_rule cp ch cl pc pd pp ppp ep
   \<and> m_expectation (analyze_movement_expectation cp ch cl pc pd 0.9 0.5 ep) = ''PULLBACK''"
  by (simp add: analyze_movement_expectation_def movement_rule_def distance_ratio_of_def Let_def)

text \<open>
  Claim C4, amended. The entry strategy is the first matching rule in the order
  HIGH\_CONFIDENCE, DEFENSE, WAIT, HEDGE, NEUTRAL, with the modifiers, stake tiers and risk
  levels of the specification; HIGH\_CONFIDENCE is returned exactly when the expectation is
  GAIN\_STRENGTH, the expansion probability and the movement confidence exceed 0.75 and more
  than 12.5 of the 15 minutes have elapsed, that is, the elapsed fraction exceeds 5/6.
\<close>

theorem entry_first_match:
  "entry_tuple (determine_entry_strategy pd m ep pp elapsed_minutes)
     = entry_rule (m_expectation m) ep (m_confidence m) elapsed_minutes
   \<and> (e_strategy (determine_entry_strategy pd m ep pp elapsed_minutes) = ''HIGH_CONFIDENCE''
        \<longleftrightarrow> m_expectation m = ''GAIN_STRENGTH'' \<and> ep > 0.75 \<and> m_confidence m > 0.75
            \<and> elapsed_minutes / 15 > 5 / 6)"
  by (simp add: determine_entry_strategy_def entry_rule_def entry_tuple_def Let_def)

text \<open>
  Claim C4 as stated fails at 12.5 elapsed minutes: the elapsed fraction, 0.8333..., exceeds
  0.833 and the other three conditions hold, yet the strategy is not HIGH\_CONFIDENCE.
\<close>

theorem entry_high_confidence_counterexample:
  "(12.5 :: real) / 15 > 0.833 \<and>
   e_strategy (determine_entry_strategy ''compra''
       \<lparr>m_expectation = ''GAIN_STRENGTH'', m_confidence = 0.80, m_will_pullback = False,
        m_will_gain_strength = True, m_will_consolidate = False, m_will_reverse_color = False\<rparr>
       0.8 0.5 12.5) \<noteq> ''HIGH_CONFIDENCE''"
  by (simp add: determine_entry_strategy_def Let_def)

lemma calc_unfold:
  "calculate_expansion_probability ca pa em cp ch cl pc pd =
     clamp01 (0.25 * growth_component ca pa
              + 0.20 * (1 - 2 * \<bar>price_position_of ca cp cl - 0.5\<bar>)
              + 0.30 * time_component em
              + 0.25 * breakout_component pc ch cl)"
  unfolding calculate_expansion_probability_def clamp01_def growth_component_def
        price_position_of_def time_component_def breakout_component_def Let_def
  by (simp only: mult.commute [of _ "0.25"] mult.commute [of _ "0.20"] mult.commute [of _ "0.30"]
        mult.commute [of _ 2])

lemma growth_component_clamp: "growth_component ca pa = clamp01 (if ca > 0 then (pa - ca) / ca else 0)"
  by (simp add: growth_component_def clamp01_def min_def max_def)

lemma position_in_range:
  "0 \<le> pp \<Longrightarrow> pp \<le> 1 \<Longrightarrow> clamp01 (1 - 2 * \<bar>pp - 0.5\<bar>) = 1 - 2 * \<bar>pp - 0.5\<bar>"
  unfolding clamp01_def by (cases "pp \<le> 0.5") (auto simp: abs_if)

text \<open>
  Claim C5, amended. The expansion probability is the weighted sum, with weights 0.25,
  0.20, 0.30 and 0.25, of the growth factor (clamped to the unit interval), the position
  factor 1 - 2|price position - 0.5| (not clamped), the time factor and the breakout factor,
  the sum being clamped to the unit interval. When the price position lies between 0 and 1
  the position factor lies there too, and the result is the one with every factor clamped.
\<close>

theorem expansion_probability_weighted:
  "calculate_expansion_probability ca pa em cp ch cl pc pd =
     clamp01 (0.25 * growth_component ca pa
              + 0.20 * (1 - 2 * \<bar>price_position_of ca cp cl - 0.5\<bar>)
              + 0.30 * time_component em
              + 0.25 * breakout_component pc ch cl)
   \<and> (0 \<le> price_position_of ca cp cl \<and> price_position_of ca cp cl \<le> 1 \<longrightarrow>
        calculate_expansion_probability ca pa em cp ch cl pc pd
          = expansion_probability_spec ca pa em cp ch cl pc)
   \<and> 0 \<le> calculate_expansion_probability ca pa em cp ch cl pc pd
   \<and> calculate_expansion_probability ca pa em cp ch cl pc pd \<le> 1"
proof -
  have a: "calculate_expansion_probability ca pa em cp ch cl pc pd =
     clamp01 (0.25 * growth_component ca pa
              + 0.20 * (1 - 2 * \<bar>price_position_of ca cp cl - 0.5\<bar>)
              + 0.30 * time_component em
              + 0.25 * breakout_component pc ch cl)" by (rule calc_unfold)
  have b: "0 \<le> price_position_of ca cp cl \<and> price_position_of ca cp cl \<le> 1 \<longrightarrow>
        calculate_expansion_probability ca pa em cp ch cl pc pd
          = expansion_probability_spec ca pa em cp ch cl pc"
  proof
    assume h: "0 \<le> price_position_of ca cp cl \<and> price_position_of ca cp cl \<le> 1"
    then have "clamp01 (1 - 2 * \<bar>price_position_of ca cp cl - 0.5\<bar>)
                 = 1 - 2 * \<bar>price_position_of ca cp cl - 0.5\<bar>"
      using position_in_range by blast
    then show "calculate_expansion_probability ca pa em cp ch cl pc pd
          = expansion_probability_spec ca pa em cp ch cl pc"
      by (simp only: calc_unfold expansion_probability_spec_def)
  qed
  have c: "0 \<le> clamp01 x \<and> clamp01 x \<le> 1" for x by (simp add: clamp01_def)
  show ?thesis using a b c [of "0.25 * growth_component ca pa
              + 0.20 * (1 - 2 * \<bar>price_position_of ca cp cl - 0.5\<bar>)
              + 0.30 * time_component em
              + 0.25 * breakout_component pc ch cl"] by (simp only:)
qed

text \<open>
  Claim C5 as stated fails when the current price lies outside the range of the candle:
  with low 0, high 1 and price 2 the position factor is -2, the result is 0, and the sum
  of clamped factors would give 0.26.
\<close>

theorem expansion_probability_counterexample:
  "calculate_expansion_probability 1 1 0 2 1 0 0.5 ''compra'' = 0 \<and>
   expansion_probability_spec 1 1 0 2 1 0 0.5 = 0.26"
  by (simp add: calc_unfold expansion_probability_spec_def clamp01_def growth_component_def
        price_position_of_def time_component_def breakout_component_def)

theorem expansion_probability_weighted_witness:
  "0 \<le> price_position_of 1 0.5 0 \<and> price_position_of 1 0.5 0 \<le> 1 \<and>
   calculate_expansion_probability 1 1 0 0.5 1 0 0.5 ''compra'' = expansion_probability_spec 1 1 0 0.5 1 0 0.5"
  using expansion_probability_weighted [of 1 1 0 "0.5" 1 0 "0.5" "''compra''"]
  by (simp add: price_position_of_def)

lemma aberturas_of_ok:
  "list_all abertura_numerica dados \<Longrightarrow> aberturas_of dados = Inr (map valor_abertura dados)"
  by (induction dados)
     (auto simp: abertura_numerica_def valor_abertura_def get_default_def
           split: option.splits pyval.splits)

lemma aberturas_of_err:
  "\<not> list_all abertura_numerica dados \<Longrightarrow> isl (aberturas_of dados)"
  by (induction dados)
     (auto simp: abertura_numerica_def get_default_def
           split: option.splits pyval.splits sum.splits)



text \<open>
  The hypothesis on the opening values is the exact limit of the property: the method has
  no handler, and the conversion raises out of it precisely when some candle carries an
  opening value that is not a number.
\<close>

lemma detectar_fase_erro:
  "isl (fst (detectar_fase e dados)) \<longleftrightarrow> \<not> list_all abertura_numerica dados"
proof (cases "list_all abertura_numerica dados")
  case True
  then show ?thesis by (simp add: detectar_fase_def aberturas_of_ok Let_def)
next
  case False
  then have "dados \<noteq> []" by auto
  with False aberturas_of_err [OF False] show ?thesis
    by (auto simp: detectar_fase_def split: sum.splits)
qed

lemma to_float_Inr: "to_float v = Inr x \<longleftrightarrow> v = PyNum x"
  by (cases v) auto

lemma testar_par_Inr:
  "testar_par f a b = Inr hit \<longleftrightarrow>
     (\<exists>ao c ab k. abertura a = Some (PyNum ao) \<and> fechamento b = Some (PyNum c)
        \<and> abertura b = Some (PyNum ab) \<and> f ao = Inr k
        \<and> hit = ((k > 0.5) = (c > ab)))"
  by (auto simp: testar_par_def subscript_def Let_def to_float_Inr
           split: option.splits sum.splits)

lemma testar_loop_count:
  "testar_loop f dados (ac, tot) =
     (ac + length (filter (par_acerto f) (pares dados)),
      tot + length (filter (par_usavel f) (pares dados)))"
proof (induction f dados "(ac, tot)" arbitrary: ac tot rule: testar_loop.induct)
  case (1 f a b rest acertos_n total_n)
  show ?case
  proof (cases "testar_par f a b")
    case (Inl err)
    then have "\<not> par_usavel f (a, b)" and "\<not> par_acerto f (a, b)"
      by (simp_all add: par_usavel_def par_acerto_def)
    with 1 Inl show ?thesis by (simp add: pares_def)
  next
    case (Inr hit)
    then have "par_usavel f (a, b)" and "par_acerto f (a, b) = hit"
      by (simp_all add: par_usavel_def par_acerto_def)
    with 1 Inr show ?thesis by (simp add: pares_def)
  qed
next
  case (2 f a)
  show ?case by (simp add: pares_def)
next
  case (3 f)
  show ?case by (simp add: pares_def)
qed

lemma acerto_usavel: "par_acerto f p \<Longrightarrow> par_usavel f p"
  by (simp add: par_acerto_def par_usavel_def)

text \<open>
  Claim C7, amended. The score of a key is 0 when the dataset has fewer than 5 candles or
  no pair of consecutive candles is usable, and otherwise the number of hits divided by the
  number of usable pairs. A pair (prior, current) is usable when the opening value of both
  candles and the closing value of the current one are numbers and the key function returns
  on the prior opening value; it is a hit when, besides, the key value exceeds 0.5 exactly
  when the current close exceeds the current open.
\<close>

theorem testar_chave_fase1_score:
  "testar_chave_fase1 dados f =
     (if length dados < 5 \<or> filter (par_usavel f) (pares dados) = [] then 0
      else real (length (filter (par_acerto f) (pares dados)))
           / real (length (filter (par_usavel f) (pares dados))))
   \<and> (par_usavel f (a, b) \<longleftrightarrow>
        (\<exists>ao c ab k. abertura a = Some (PyNum ao) \<and> fechamento b = Some (PyNum c)
           \<and> abertura b = Some (PyNum ab) \<and> f ao = Inr k))
   \<and> (par_acerto f (a, b) \<longleftrightarrow>
        (\<exists>ao c ab k. abertura a = Some (PyNum ao) \<and> fechamento b = Some (PyNum c)
           \<and> abertura b = Some (PyNum ab) \<and> f ao = Inr k \<and> ((k > 0.5) = (c > ab))))"
proof -
  have s: "testar_chave_fase1 dados f =
     (if length dados < 5 \<or> filter (par_usavel f) (pares dados) = [] then 0
      else real (length (filter (par_acerto f) (pares dados)))
           / real (length (filter (par_usavel f) (pares dados))))"
    by (simp add: testar_chave_fase1_def testar_loop_count)
  have u: "par_usavel f (a, b) \<longleftrightarrow>
        (\<exists>ao c ab k. abertura a = Some (PyNum ao) \<and> fechamento b = Some (PyNum c)
           \<and> abertura b = Some (PyNum ab) \<and> f ao = Inr k)"
  proof
    assume "par_usavel f (a, b)"
    then obtain hit where "testar_par f a b = Inr hit"
      by (cases "testar_par f a b") (simp_all add: par_usavel_def)
    then show "\<exists>ao c ab k. abertura a = Some (PyNum ao) \<and> fechamento b = Some (PyNum c)
           \<and> abertura b = Some (PyNum ab) \<and> f ao = Inr k"
      unfolding testar_par_Inr by blast
  next
    assume "\<exists>ao c ab k. abertura a = Some (PyNum ao) \<and> fechamento b = Some (PyNum c)
           \<and> abertura b = Some (PyNum ab) \<and> f ao = Inr k"
    then obtain ao c ab k where "abertura a = Some (PyNum ao) \<and> fechamento b = Some (PyNum c)
           \<and> abertura b = Some (PyNum ab) \<and> f ao = Inr k" by blast
    then have "testar_par f a b = Inr ((k > 0.5) = (c > ab))"
      unfolding testar_par_Inr by blast
    then show "par_usavel f (a, b)" by (simp add: par_usavel_def)
  qed
  have h: "par_acerto f (a, b) \<longleftrightarrow>
        (\<exists>ao c ab k. abertura a = Some (PyNum ao) \<and> fechamento b = Some (PyNum c)
           \<and> abertura b = Some (PyNum ab) \<and> f ao = Inr k \<and> ((k > 0.5) = (c > ab)))"
    unfolding par_acerto_def fst_conv snd_conv testar_par_Inr by blast
  show ?thesis using s u h by blast
qed

text \<open>
  Claim C7 as stated fails on five candles: they give four usable pairs, fewer than five,
  and the score is 1, not 0.
\<close>

theorem testar_chave_fase1_counterexample:
  "length (filter (par_usavel chave_um)
       (pares [candle_verde, candle_verde, candle_verde, candle_verde, candle_verde])) < 5
   \<and> testar_chave_fase1 [candle_verde, candle_verde, candle_verde, candle_verde, candle_verde]
        chave_um = 1"
  by (simp add: testar_chave_fase1_def pares_def par_usavel_def testar_par_def subscript_def
        candle_verde_def chave_um_def Let_def)

end
